theory Spec2Isabelle
  imports Main "HOL-Library.Sublist" "HOL-Library.Word"
begin

section \<open>The bookings controller of the v2 API\<close>

text \<open>
  A shallow embedding of \<^verbatim>\<open>apps/api/v2/src/ee/bookings/controllers/bookings.controller.ts\<close>.
  Every method of the controller is a function that takes the collaborators it calls
  (the booking engine, the repositories, the billing service, the configuration), the
  current contents of the module-level object \<^verbatim>\<open>DEFAULT_PLATFORM_PARAMS\<close> and the
  request, and returns what the method returns or throws, the contents of that object
  afterwards, and the effects it issued, in order.
\<close>

subsection \<open>Thrown values and HTTP exceptions\<close>

text \<open>
  A value caught by a \<^verbatim>\<open>catch\<close> clause, as far as \<^verbatim>\<open>handleBookingErrors\<close> tells
  values apart: an instance of \<^verbatim>\<open>HttpError\<close>, another instance of \<^verbatim>\<open>Error\<close>, or
  anything else. The code reads \<^verbatim>\<open>message\<close> and \<^verbatim>\<open>statusCode\<close> through \<^verbatim>\<open>?.\<close>
  and \<^verbatim>\<open>??\<close>, so each may be \<^verbatim>\<open>null\<close> or \<^verbatim>\<open>undefined\<close>: \<open>None\<close>.
\<close>

datatype thrown =
    HttpError (statusCode: "int option") (httpMessage: "string option")
  | PlainError (errorMessage: "string option")
  | NonError

text \<open>
  The exception classes of the web framework, by the message and the status that the
  caller gets. \<^verbatim>\<open>new HttpException(message, status)\<close> with a string has that string as
  its message, the empty string too. \<^verbatim>\<open>InternalServerErrorException\<close> and
  \<^verbatim>\<open>NotFoundException\<close> are its subclasses of status 500 and 404. They build the body of
  the response from their argument, and take the description of the status for the
  message when the argument is falsy, which for a string is the empty one.
\<close>

datatype http_exception = HttpException (excMessage: string) (excStatus: int)

definition InternalServerErrorException :: "string \<Rightarrow> http_exception" where
  "InternalServerErrorException msg =
     HttpException (if msg = [] then ''Internal Server Error'' else msg) 500"

definition NotFoundException :: "string \<Rightarrow> http_exception" where
  "NotFoundException msg = HttpException (if msg = [] then ''Not Found'' else msg) 404"

text \<open>The second argument of \<^verbatim>\<open>handleBookingErrors\<close>; \<open>None\<close> when it is left out.\<close>

datatype booking_type = Recurring | Instant | NoShow

fun typeString :: "booking_type \<Rightarrow> string" where
  "typeString Recurring = ''recurring''"
| "typeString Instant = ''instant''"
| "typeString NoShow = ''no-show''"

definition errMsg :: "booking_type option \<Rightarrow> string" where
  "errMsg type =
     (if type = Some NoShow then ''Error while marking no-show.''
      else ''Error while creating ''
           @ (case type of None \<Rightarrow> '''' | Some t \<Rightarrow> typeString t @ '' '')
           @ ''booking.'')"

text \<open>
  \<^verbatim>\<open>handleBookingErrors\<close> is declared to return \<^verbatim>\<open>void\<close>; \<open>Inl\<close> is the exception it
  throws, \<open>Inr ()\<close> would be a normal return.
\<close>

fun handleBookingErrors :: "thrown \<Rightarrow> booking_type option \<Rightarrow> http_exception + unit" where
  "handleBookingErrors (HttpError sc msg) type =
     Inl (HttpException (case msg of None \<Rightarrow> errMsg type | Some m \<Rightarrow> m)
                        (case sc of None \<Rightarrow> 500 | Some s \<Rightarrow> s))"
| "handleBookingErrors (PlainError msg) type =
     Inl (InternalServerErrorException (case msg of None \<Rightarrow> errMsg type | Some m \<Rightarrow> m))"
| "handleBookingErrors NonError type =
     Inl (InternalServerErrorException (errMsg type))"

subsection \<open>JavaScript values\<close>

text \<open>
  Truthiness, as the \<^verbatim>\<open>if\<close> conditions of the controller test it: \<^verbatim>\<open>undefined\<close>,
  \<^verbatim>\<open>null\<close>, the empty string and the number 0 are falsy. A \<^verbatim>\<open>Date\<close> object is always
  truthy; it is modelled by its time value in milliseconds.
\<close>

definition truthyString :: "string option \<Rightarrow> bool" where
  "truthyString s = (case s of None \<Rightarrow> False | Some v \<Rightarrow> v \<noteq> [])"

definition truthyNumber :: "int option \<Rightarrow> bool" where
  "truthyNumber n = (case n of None \<Rightarrow> False | Some v \<Rightarrow> v \<noteq> 0)"

definition truthyDate :: "int option \<Rightarrow> bool" where
  "truthyDate d = (case d of None \<Rightarrow> False | Some _ \<Rightarrow> True)"

text \<open>
  \<^verbatim>\<open>s.replace(pat, rep)\<close> with a string pattern: the first occurrence of \<open>pat\<close> in
  \<open>s\<close>, wherever it is, is replaced; without an occurrence \<open>s\<close> is returned as it is.
\<close>

fun replaceFirst :: "string \<Rightarrow> string \<Rightarrow> string \<Rightarrow> string" where
  "replaceFirst pat rep [] = (if pat = [] then rep else [])"
| "replaceFirst pat rep (c # cs) =
     (if prefix pat (c # cs) then rep @ drop (length pat) (c # cs)
      else c # replaceFirst pat rep cs)"

text \<open>
  The path parameter \<^verbatim>\<open>bookingId\<close> is given to \<^verbatim>\<open>parseInt\<close>, which looks at its
  characters: it is a string of the language, a sequence of 16-bit code units.
  \<open>codeUnits\<close> gives the string of an ASCII literal.
\<close>

type_synonym js_string = "16 word list"

definition codeUnits :: "string \<Rightarrow> js_string" where
  "codeUnits s = map (\<lambda>c. of_nat (of_char c)) s"

text \<open>
  The Number that \<^verbatim>\<open>parseInt\<close> returns: \<^verbatim>\<open>NaN\<close>; the negative zero; \<open>Num n\<close>, the
  Number \<open>n\<close>, for an integer \<open>n\<close> of magnitude up to \<open>2 ^ 53\<close>, every one of which is a
  Number; and \<open>Rounded m\<close> for an integer \<open>m\<close> beyond that, where not every integer is a
  Number: the Number that the language gives for \<open>m\<close> (a Number next to \<open>m\<close>, an
  approximation that the engine chooses for a numeral of more than 20 digits, or an
  infinity), which is not computed here.
\<close>

datatype js_number = NaN | NegZero | Num int | Rounded int

definition toNumber :: "int \<Rightarrow> int \<Rightarrow> js_number" where
  "toNumber sign mathInt =
     (if mathInt = 0 then (if sign = - 1 then NegZero else Num 0)
      else if mathInt \<le> 9007199254740992 then Num (sign * mathInt)
      else Rounded (sign * mathInt))"

text \<open>
  The white space and the line terminators of the language, which \<^verbatim>\<open>parseInt\<close> skips
  at the start: U+0009 to U+000D, U+0020, U+00A0, U+1680, U+2000 to U+200A, U+2028,
  U+2029, U+202F, U+205F, U+3000 and U+FEFF.
\<close>

definition isWhiteSpace :: "16 word \<Rightarrow> bool" where
  "isWhiteSpace c =
     (let n = unat c in
      n \<in> {9, 10, 11, 12, 13, 32, 160, 5760, 8232, 8233, 8239, 8287, 12288, 65279}
      \<or> (8192 \<le> n \<and> n \<le> 8202))"

definition digitValue :: "16 word \<Rightarrow> nat option" where
  "digitValue c =
     (let n = unat c in
      if 48 \<le> n \<and> n \<le> 57 then Some (n - 48)
      else if 97 \<le> n \<and> n \<le> 122 then Some (n - 87)
      else if 65 \<le> n \<and> n \<le> 90 then Some (n - 55)
      else None)"

definition isRadixDigit :: "nat \<Rightarrow> 16 word \<Rightarrow> bool" where
  "isRadixDigit R c = (case digitValue c of None \<Rightarrow> False | Some d \<Rightarrow> d < R)"

definition radixValue :: "nat \<Rightarrow> js_string \<Rightarrow> int" where
  "radixValue R Z =
     foldl (\<lambda>acc c. acc * int R + (case digitValue c of None \<Rightarrow> 0 | Some d \<Rightarrow> int d)) 0 Z"

text \<open>
  \<^verbatim>\<open>parseInt(string)\<close> with no radix, as the language defines it: leading white space
  is skipped, one sign is read, a prefix \<^verbatim>\<open>0x\<close> or \<^verbatim>\<open>0X\<close> selects radix 16, and the
  longest run of digits that follows is the numeral; what comes after it is ignored.
  The result is \<^verbatim>\<open>NaN\<close> exactly when that run is empty.
\<close>

definition parseInt :: "js_string \<Rightarrow> js_number" where
  "parseInt inputString =
     (let S = dropWhile isWhiteSpace inputString;
          sign = (if take 1 S = codeUnits ''-'' then - 1 else 1 :: int);
          S1 = (if take 1 S = codeUnits ''+'' \<or> take 1 S = codeUnits ''-'' then drop 1 S else S);
          hex = (take 2 S1 = codeUnits ''0x'' \<or> take 2 S1 = codeUnits ''0X'');
          R = (if hex then 16 else 10 :: nat);
          S2 = (if hex then drop 2 S1 else S1);
          Z = takeWhile (isRadixDigit R) S2
      in if Z = [] then NaN else toNumber sign (radixValue R Z))"

text \<open>
  Dates. A \<^verbatim>\<open>Date\<close> is its time value, the milliseconds since the epoch in UTC; a time
  value lies within \<open>8.64 * 10 ^ 15\<close> of the epoch, and \<^verbatim>\<open>TimeClip\<close> makes what lies
  beyond an invalid date, \<open>None\<close>. The functions are those of the language. The offset
  of local time is the host's: \<open>tza t True\<close> is the offset in force at the time value
  \<open>t\<close>, and \<open>tza t False\<close> the offset by which the local time \<open>t\<close> is read, each a
  whole number of milliseconds of less than a day. All the values are then whole numbers
  below \<open>2 ^ 53\<close>, where the arithmetic of Numbers is exact.
\<close>

definition LocalTime :: "(int \<Rightarrow> bool \<Rightarrow> int) \<Rightarrow> int \<Rightarrow> int" where
  "LocalTime tza t = t + tza t True"

definition UTC :: "(int \<Rightarrow> bool \<Rightarrow> int) \<Rightarrow> int \<Rightarrow> int" where
  "UTC tza t = t - tza t False"

definition Day :: "int \<Rightarrow> int" where
  "Day t = t div 86400000"

definition HourFromTime :: "int \<Rightarrow> int" where
  "HourFromTime t = (t div 3600000) mod 24"

definition MinFromTime :: "int \<Rightarrow> int" where
  "MinFromTime t = (t div 60000) mod 60"

definition SecFromTime :: "int \<Rightarrow> int" where
  "SecFromTime t = (t div 1000) mod 60"

definition msFromTime :: "int \<Rightarrow> int" where
  "msFromTime t = t mod 1000"

definition MakeTime :: "int \<Rightarrow> int \<Rightarrow> int \<Rightarrow> int \<Rightarrow> int" where
  "MakeTime hour minute sec ms = hour * 3600000 + minute * 60000 + sec * 1000 + ms"

definition MakeDate :: "int \<Rightarrow> int \<Rightarrow> int" where
  "MakeDate day time = day * 86400000 + time"

definition TimeClip :: "int \<Rightarrow> int option" where
  "TimeClip t = (if abs t \<le> 8640000000000000 then Some t else None)"

text \<open>\<^verbatim>\<open>getSeconds()\<close> and \<^verbatim>\<open>setSeconds(sec)\<close> of a date with the time value \<open>t\<close>.\<close>

definition getSeconds :: "(int \<Rightarrow> bool \<Rightarrow> int) \<Rightarrow> int \<Rightarrow> int" where
  "getSeconds tza t = SecFromTime (LocalTime tza t)"

definition setSeconds :: "(int \<Rightarrow> bool \<Rightarrow> int) \<Rightarrow> int \<Rightarrow> int \<Rightarrow> int option" where
  "setSeconds tza t sec =
     (let tl = LocalTime tza t;
          date = MakeDate (Day tl) (MakeTime (HourFromTime tl) (MinFromTime tl) sec (msFromTime tl))
      in TimeClip (UTC tza date))"

subsection \<open>Data\<close>

text \<open>\<^verbatim>\<open>OAuthRequestParams\<close>, and the initial contents of \<^verbatim>\<open>DEFAULT_PLATFORM_PARAMS\<close>.\<close>

record OAuthRequestParams =
  platformClientId :: string
  platformRescheduleUrl :: string
  platformCancelUrl :: string
  platformBookingUrl :: string
  platformBookingLocation :: "string option"
  arePlatformEmailsEnabled :: bool

definition DEFAULT_PLATFORM_PARAMS :: OAuthRequestParams where
  "DEFAULT_PLATFORM_PARAMS =
     \<lparr> platformClientId = [], platformRescheduleUrl = [], platformCancelUrl = [],
       platformBookingUrl = [], platformBookingLocation = None,
       arePlatformEmailsEnabled = False \<rparr>"

text \<open>The fields of a stored OAuth client and of a stored API key that the controller reads.\<close>

record oauth_client =
  bookingCancelRedirectUri :: "string option"
  bookingRescheduleRedirectUri :: "string option"
  bookingRedirectUri :: "string option"
  areEmailsEnabled :: "bool option"

record api_key =
  keyUserId :: int

text \<open>
  The request object, as far as the controller reads and writes it: the
  \<^verbatim>\<open>Authorization\<close> header, the header \<^verbatim>\<open>x-cal-force-slug\<close>, the body fields
  \<^verbatim>\<open>id\<close> and \<^verbatim>\<open>noEmail\<close>, the property \<^verbatim>\<open>userId\<close>, and the six properties of
  \<^verbatim>\<open>OAuthRequestParams\<close> that \<^verbatim>\<open>Object.assign\<close> writes together (absent before).
  The other fields of the body are passed on untouched and are left out.
\<close>

record request_body =
  bodyId :: "js_number option"
  noEmail :: "bool option"

record booking_request =
  authorization :: "string option"
  forceSlug :: "string option"
  body :: request_body
  reqUserId :: "int option"
  platformParams :: "OAuthRequestParams option"

text \<open>The part of \<^verbatim>\<open>CreateBookingInput\<close> that \<^verbatim>\<open>createBooking\<close> destructures.\<close>

record create_booking_input =
  orgSlug :: "string option"
  locationUrl :: "string option"

text \<open>
  Results of the booking engine, with the fields the controller reads. A \<^verbatim>\<open>Date\<close> is
  its time value in milliseconds; \<^verbatim>\<open>fromReschedule\<close> is only passed on.
\<close>

record booking_response =
  bookingUserId :: "int option"
  uid :: "string option"
  startTime :: "int option"
  fromReschedule :: "string option"

record cancel_result =
  cancelledBookingId :: int
  cancelledBookingUid :: string
  onlyRemovedAttendee :: bool

record instant_meeting =
  instantUserId :: "int option"
  instantBookingUid :: "string option"

text \<open>The second argument of \<^verbatim>\<open>billingService.increaseUsageByUserId\<close>.\<close>

record usage =
  usageUid :: string
  usageStartTime :: int
  usageFromReschedule :: "string option"

record 'a api_response =
  status :: string
  data :: 'a

text \<open>Modelled from the spec: the constant \<^verbatim>\<open>SUCCESS_STATUS\<close> of the platform constants,
  which are not part of the sources at hand; the success envelope is
  \<^verbatim>\<open>{status: "success", data: ...}\<close>.\<close>

definition SUCCESS_STATUS :: string where
  "SUCCESS_STATUS = ''success''"

subsection \<open>Collaborators\<close>

text \<open>
  What a call of \<^verbatim>\<open>oAuthFlowService.getOwnerId\<close> does. \<^verbatim>\<open>getOwnerId\<close> of the
  controller returns the result of this call without awaiting it, so it matters whether
  a failure is thrown by the call itself or is the rejection of the promise it returns
  (as it is for an \<^verbatim>\<open>async\<close> method).
\<close>

datatype owner_call =
    Yields "int option"
  | Throws thrown
  | Rejects thrown

text \<open>
  The collaborators of the controller. An awaited call is modelled by \<open>thrown + 'a\<close>:
  \<open>Inl\<close> when it throws or its promise is rejected. \<^verbatim>\<open>isApiKey\<close>, \<^verbatim>\<open>stripApiKey\<close> and
  \<^verbatim>\<open>hashAPIKey\<close> come from \<^verbatim>\<open>@/lib/api-key\<close>, which is not part of the sources at
  hand: they are parameters. \<open>now\<close> is the time value of \<^verbatim>\<open>new Date()\<close>, and
  \<open>localTZA\<close> the host's offset of local time. \<open>increaseUsageInvalidDate\<close> is
  \<^verbatim>\<open>increaseUsageByUserId\<close> called with a start time that is an invalid date. Every
  collaborator is a function of its arguments: while one request is handled, a call
  repeated with the same arguments has the same result.
\<close>

record collaborators =
  config :: "string \<Rightarrow> string option"
  isApiKey :: "string \<Rightarrow> string \<Rightarrow> bool"
  stripApiKey :: "string \<Rightarrow> string option \<Rightarrow> string"
  hashAPIKey :: "string \<Rightarrow> string"
  getApiKeyFromHash :: "string \<Rightarrow> thrown + api_key option"
  oAuthFlowGetOwnerId :: "string \<Rightarrow> owner_call"
  getOAuthClient :: "string \<Rightarrow> thrown + oauth_client option"
  handleNewBooking :: "booking_request \<Rightarrow> thrown + booking_response"
  handleCancelBooking :: "booking_request \<Rightarrow> thrown + cancel_result"
  handleInstantMeeting :: "booking_request \<Rightarrow> thrown + instant_meeting"
  increaseUsageByUserId :: "int \<Rightarrow> usage \<Rightarrow> thrown option"
  increaseUsageInvalidDate :: "int \<Rightarrow> string \<Rightarrow> thrown option"
  cancelUsageByBookingUid :: "string \<Rightarrow> thrown option"
  now :: int
  localTZA :: "int \<Rightarrow> bool \<Rightarrow> int"

text \<open>The effects of a request, in the order in which they are issued.\<close>

datatype effect =
    LoggerError thrown
  | NewBookingCall booking_request
  | CancelBookingCall booking_request
  | InstantMeetingCall booking_request
  | IncreaseUsage int usage
  | IncreaseUsageInvalidDate int string
  | CancelUsage string

text \<open>What a controller method throws: an exception it built, or a value it did not catch.\<close>

datatype raised = Exception http_exception | Uncaught thrown

subsection \<open>Resolving the owner of the credential\<close>

text \<open>
  \<^verbatim>\<open>getOwnerId\<close>. The first component is what the returned promise settles to: \<open>Inr\<close> the
  owner id (\<open>None\<close> for \<^verbatim>\<open>undefined\<close>), \<open>Inl\<close> a rejection that reaches the caller. The
  second is what was handed to \<^verbatim>\<open>logger.error\<close>. The lookup of the key is awaited
  inside the \<^verbatim>\<open>try\<close> block, so its failure is caught; the call of
  \<^verbatim>\<open>oAuthFlowService.getOwnerId\<close> is returned without \<^verbatim>\<open>await\<close>, so only what it
  throws before returning is caught, and a rejection of its promise is not.
\<close>

definition getOwnerId ::
  "collaborators \<Rightarrow> booking_request \<Rightarrow> (thrown + int option) \<times> thrown list" where
  "getOwnerId env req =
     (case map_option (replaceFirst ''Bearer '' []) (authorization req) of
        None \<Rightarrow> (Inr None, [])
      | Some bearerToken \<Rightarrow>
          if bearerToken = [] then (Inr None, [])
          else if isApiKey env bearerToken
                    (case config env ''api.apiKeyPrefix'' of None \<Rightarrow> ''cal_'' | Some p \<Rightarrow> p)
          then
            (let strippedApiKey = stripApiKey env bearerToken (config env ''api.keyPrefix'');
                 apiKeyHash = hashAPIKey env strippedApiKey
             in case getApiKeyFromHash env apiKeyHash of
                  Inl err \<Rightarrow> (Inr None, [err])
                | Inr keyData \<Rightarrow> (Inr (map_option keyUserId keyData), []))
          else
            (case oAuthFlowGetOwnerId env bearerToken of
               Yields ownerId \<Rightarrow> (Inr ownerId, [])
             | Throws err \<Rightarrow> (Inr None, [err])
             | Rejects err \<Rightarrow> (Inl err, [])))"

subsection \<open>Resolving the parameters of the OAuth client\<close>

text \<open>
  \<^verbatim>\<open>getOAuthClientsParams\<close>. \<^verbatim>\<open>const res = DEFAULT_PLATFORM_PARAMS\<close> binds \<open>res\<close> to
  the module-level object itself, so the assignments to the properties of \<open>res\<close> are
  assignments to that object. The argument \<open>g\<close> is its contents before the call; the
  result is the object returned (its contents at the return), the contents of the
  module-level object afterwards, which are the same, and what was logged.
\<close>

definition getOAuthClientsParams ::
  "collaborators \<Rightarrow> string \<Rightarrow> OAuthRequestParams
     \<Rightarrow> OAuthRequestParams \<times> OAuthRequestParams \<times> thrown list" where
  "getOAuthClientsParams env clientId g =
     (case getOAuthClient env clientId of
        Inl err \<Rightarrow> (g, g, [err])
      | Inr None \<Rightarrow> (g, g, [])
      | Inr (Some client) \<Rightarrow>
          (let res = g\<lparr> platformClientId := clientId,
                        platformCancelUrl :=
                          (case bookingCancelRedirectUri client of None \<Rightarrow> [] | Some u \<Rightarrow> u),
                        platformRescheduleUrl :=
                          (case bookingRescheduleRedirectUri client of None \<Rightarrow> [] | Some u \<Rightarrow> u),
                        platformBookingUrl :=
                          (case bookingRedirectUri client of None \<Rightarrow> [] | Some u \<Rightarrow> u),
                        arePlatformEmailsEnabled :=
                          (case areEmailsEnabled client of None \<Rightarrow> False | Some b \<Rightarrow> b) \<rparr>
           in (res, res, [])))"

subsection \<open>Assembling the request for the booking engine\<close>

text \<open>
  \<^verbatim>\<open>createNextApiBookingRequest\<close>: \<open>Inr\<close> the request as the engine receives it, or
  \<open>Inl\<close> the rejection of \<^verbatim>\<open>getOwnerId\<close>; the contents of the module-level object
  afterwards; the effects. Without a client id \<open>oAuthParams\<close> is the module-level object
  as it is at that moment.
\<close>

definition createNextApiBookingRequest ::
  "collaborators \<Rightarrow> OAuthRequestParams \<Rightarrow> booking_request \<Rightarrow> string option \<Rightarrow> string option
     \<Rightarrow> (thrown + booking_request) \<times> OAuthRequestParams \<times> effect list" where
  "createNextApiBookingRequest env g req oAuthClientId bookingLocation =
     (case getOwnerId env req of
        (Inl err, logged) \<Rightarrow> (Inl err, g, map LoggerError logged)
      | (Inr owner, logged) \<Rightarrow>
          (let userId = (case owner of None \<Rightarrow> - 1 | Some i \<Rightarrow> i);
               (oAuthParams, g', logged') =
                  (case oAuthClientId of
                     None \<Rightarrow> (g, g, [])
                   | Some clientId \<Rightarrow>
                       if clientId = [] then (g, g, [])
                       else getOAuthClientsParams env clientId g)
           in (Inr (req\<lparr> reqUserId := Some userId,
                          platformParams :=
                            Some (oAuthParams\<lparr> platformBookingLocation := bookingLocation \<rparr>),
                          body := (body req)\<lparr> noEmail :=
                                     Some (\<not> arePlatformEmailsEnabled oAuthParams) \<rparr> \<rparr>),
               g', map LoggerError (logged @ logged'))))"

subsection \<open>The controller methods\<close>

text \<open>
  A \<^verbatim>\<open>catch\<close> clause that calls \<^verbatim>\<open>handleBookingErrors\<close>, followed by the
  \<^verbatim>\<open>throw\<close> after the \<^verbatim>\<open>try\<close> statement, which is reached only if
  \<^verbatim>\<open>handleBookingErrors\<close> returns.
\<close>

definition catchClause :: "thrown \<Rightarrow> booking_type option \<Rightarrow> string \<Rightarrow> raised" where
  "catchClause err type fallThrough =
     (case handleBookingErrors err type of
        Inl e \<Rightarrow> Exception e
      | Inr _ \<Rightarrow> Exception (InternalServerErrorException fallThrough))"

text \<open>
  \<^verbatim>\<open>createBooking\<close> (\<^verbatim>\<open>POST /\<close>). \<open>billing\<close> is the call of
  \<^verbatim>\<open>increaseUsageByUserId\<close> that the \<^verbatim>\<open>if\<close> statement guards, if it is made.
\<close>

definition createBooking ::
  "collaborators \<Rightarrow> OAuthRequestParams \<Rightarrow> booking_request \<Rightarrow> create_booking_input
     \<Rightarrow> string option
     \<Rightarrow> (raised + booking_response api_response) \<times> OAuthRequestParams \<times> effect list" where
  "createBooking env g req input clientId =
     (let oAuthClientId = clientId;
          req1 = req\<lparr> forceSlug := orgSlug input \<rparr>
      in case createNextApiBookingRequest env g req1 oAuthClientId (locationUrl input) of
           (Inl err, g', tr) \<Rightarrow> (Inl (catchClause err None ''Could not create booking.''), g', tr)
         | (Inr ctx, g', tr) \<Rightarrow>
             (case handleNewBooking env ctx of
                Inl err \<Rightarrow>
                  (Inl (catchClause err None ''Could not create booking.''), g',
                   tr @ [NewBookingCall ctx])
              | Inr booking \<Rightarrow>
                  (let billing =
                        (if truthyNumber (bookingUserId booking) \<and> truthyString (uid booking)
                            \<and> truthyDate (startTime booking)
                         then (case (bookingUserId booking, uid booking, startTime booking) of
                                 (Some ownerId, Some bookingUid, Some start) \<Rightarrow>
                                   Some (ownerId,
                                         \<lparr> usageUid = bookingUid, usageStartTime = start,
                                           usageFromReschedule = fromReschedule booking \<rparr>)
                               | _ \<Rightarrow> None)
                         else None)
                   in case billing of
                        None \<Rightarrow>
                          (Inr \<lparr> status = SUCCESS_STATUS, data = booking \<rparr>, g',
                           tr @ [NewBookingCall ctx])
                      | Some (ownerId, u) \<Rightarrow>
                          (case increaseUsageByUserId env ownerId u of
                             Some err \<Rightarrow>
                               (Inl (catchClause err None ''Could not create booking.''), g',
                                tr @ [NewBookingCall ctx, IncreaseUsage ownerId u])
                           | None \<Rightarrow>
                               (Inr \<lparr> status = SUCCESS_STATUS, data = booking \<rparr>, g',
                                tr @ [NewBookingCall ctx, IncreaseUsage ownerId u])))))"

text \<open>
  \<^verbatim>\<open>cancelBooking\<close> (\<^verbatim>\<open>POST /:bookingId/cancel\<close>). The path parameter is \<open>None\<close> when
  it is \<^verbatim>\<open>undefined\<close>.
\<close>

definition cancelBooking ::
  "collaborators \<Rightarrow> OAuthRequestParams \<Rightarrow> booking_request \<Rightarrow> js_string option
     \<Rightarrow> string option
     \<Rightarrow> (raised + cancel_result api_response) \<times> OAuthRequestParams \<times> effect list" where
  "cancelBooking env g req bookingId clientId =
     (let oAuthClientId = clientId in
      case bookingId of
        None \<Rightarrow> (Inl (Exception (NotFoundException ''Booking ID is required.'')), g, [])
      | Some bid \<Rightarrow>
          if bid = [] then (Inl (Exception (NotFoundException ''Booking ID is required.'')), g, [])
          else
            (let req1 = req\<lparr> body := (body req)\<lparr> bodyId := Some (parseInt bid) \<rparr> \<rparr>
             in case createNextApiBookingRequest env g req1 oAuthClientId None of
                  (Inl err, g', tr) \<Rightarrow>
                    (Inl (catchClause err None ''Could not cancel booking.''), g', tr)
                | (Inr ctx, g', tr) \<Rightarrow>
                    (case handleCancelBooking env ctx of
                       Inl err \<Rightarrow>
                         (Inl (catchClause err None ''Could not cancel booking.''), g',
                          tr @ [CancelBookingCall ctx])
                     | Inr res \<Rightarrow>
                         if \<not> onlyRemovedAttendee res
                         then
                           (case cancelUsageByBookingUid env (cancelledBookingUid res) of
                              Some err \<Rightarrow>
                                (Inl (catchClause err None ''Could not cancel booking.''), g',
                                 tr @ [CancelBookingCall ctx,
                                       CancelUsage (cancelledBookingUid res)])
                            | None \<Rightarrow>
                                (Inr \<lparr> status = SUCCESS_STATUS,
                                       data = \<lparr> cancelledBookingId = cancelledBookingId res,
                                                cancelledBookingUid = cancelledBookingUid res,
                                                onlyRemovedAttendee = onlyRemovedAttendee res \<rparr> \<rparr>,
                                 g',
                                 tr @ [CancelBookingCall ctx,
                                       CancelUsage (cancelledBookingUid res)]))
                         else
                           (Inr \<lparr> status = SUCCESS_STATUS,
                                  data = \<lparr> cancelledBookingId = cancelledBookingId res,
                                           cancelledBookingUid = cancelledBookingUid res,
                                           onlyRemovedAttendee = onlyRemovedAttendee res \<rparr> \<rparr>,
                            g', tr @ [CancelBookingCall ctx]))))"

text \<open>
  \<^verbatim>\<open>createInstantBooking\<close> (\<^verbatim>\<open>POST /instant\<close>). The first call of \<^verbatim>\<open>getOwnerId\<close>
  stands before the \<^verbatim>\<open>try\<close> statement, so its rejection is not caught. The start time
  handed to the billing service is the date \<^verbatim>\<open>new Date()\<close> after
  \<^verbatim>\<open>now.setSeconds(now.getSeconds() + 10)\<close>. \<open>billing\<close> is the call of
  \<^verbatim>\<open>increaseUsageByUserId\<close> that the \<^verbatim>\<open>if\<close> statement guards, if it is made: the effect
  and what the call does.
\<close>

definition createInstantBooking ::
  "collaborators \<Rightarrow> OAuthRequestParams \<Rightarrow> booking_request \<Rightarrow> string option
     \<Rightarrow> (raised + instant_meeting api_response) \<times> OAuthRequestParams \<times> effect list" where
  "createInstantBooking env g req clientId =
     (let oAuthClientId = clientId in
      case getOwnerId env req of
        (Inl err, logged) \<Rightarrow> (Inl (Uncaught err), g, map LoggerError logged)
      | (Inr owner, logged) \<Rightarrow>
          (let req1 = req\<lparr> reqUserId := Some (case owner of None \<Rightarrow> - 1 | Some i \<Rightarrow> i) \<rparr>;
               tr0 = map LoggerError logged
           in case createNextApiBookingRequest env g req1 oAuthClientId None of
                (Inl err, g', tr) \<Rightarrow>
                  (Inl (catchClause err (Some Instant) ''Could not create instant booking.''),
                   g', tr0 @ tr)
              | (Inr ctx, g', tr) \<Rightarrow>
                  (case handleInstantMeeting env ctx of
                     Inl err \<Rightarrow>
                       (Inl (catchClause err (Some Instant) ''Could not create instant booking.''),
                        g', tr0 @ tr @ [InstantMeetingCall ctx])
                   | Inr instantMeeting \<Rightarrow>
                       (let billing =
                             (if truthyNumber (instantUserId instantMeeting)
                                 \<and> truthyString (instantBookingUid instantMeeting)
                              then (case (instantUserId instantMeeting,
                                          instantBookingUid instantMeeting) of
                                      (Some ownerId, Some bookingUid) \<Rightarrow>
                                        (case setSeconds (localTZA env) (now env)
                                                (getSeconds (localTZA env) (now env) + 10) of
                                           Some start \<Rightarrow>
                                             Some (IncreaseUsage ownerId
                                                     \<lparr> usageUid = bookingUid,
                                                       usageStartTime = start,
                                                       usageFromReschedule = None \<rparr>,
                                                   increaseUsageByUserId env ownerId
                                                     \<lparr> usageUid = bookingUid,
                                                       usageStartTime = start,
                                                       usageFromReschedule = None \<rparr>)
                                         | None \<Rightarrow>
                                             Some (IncreaseUsageInvalidDate ownerId bookingUid,
                                                   increaseUsageInvalidDate env ownerId bookingUid))
                                    | _ \<Rightarrow> None)
                              else None)
                        in case billing of
                             None \<Rightarrow>
                               (Inr \<lparr> status = SUCCESS_STATUS, data = instantMeeting \<rparr>, g',
                                tr0 @ tr @ [InstantMeetingCall ctx])
                           | Some (ev, Some err) \<Rightarrow>
                               (Inl (catchClause err (Some Instant)
                                       ''Could not create instant booking.''),
                                g', tr0 @ tr @ [InstantMeetingCall ctx, ev])
                           | Some (ev, None) \<Rightarrow>
                               (Inr \<lparr> status = SUCCESS_STATUS, data = instantMeeting \<rparr>, g',
                                tr0 @ tr @ [InstantMeetingCall ctx, ev])))))"

text \<open>The billing calls among the effects of a request.\<close>

fun isBilling :: "effect \<Rightarrow> bool" where
  "isBilling (IncreaseUsage _ _) = True"
| "isBilling (IncreaseUsageInvalidDate _ _) = True"
| "isBilling (CancelUsage _) = True"
| "isBilling _ = False"

definition effects :: "'a \<times> 'b \<times> effect list \<Rightarrow> effect list" where
  "effects r = snd (snd r)"

definition outcome :: "'a \<times> 'b \<times> effect list \<Rightarrow> 'a" where
  "outcome r = fst r"

subsection \<open>A concrete deployment\<close>

text \<open>Modelled from the spec: \<^verbatim>\<open>isApiKey\<close> and \<^verbatim>\<open>stripApiKey\<close> of \<^verbatim>\<open>@/lib/api-key\<close>,
  which is not part of the sources at hand. A credential has the shape of a static API
  key if it begins with the key prefix, and stripping removes that prefix. (What
  stripping does when it is given no prefix is not said; the credential is left as it
  is here, and no property below depends on it.) The hash is any function of the secret.\<close>

definition specIsApiKey :: "string \<Rightarrow> string \<Rightarrow> bool" where
  "specIsApiKey authString p = prefix p authString"

definition specStripApiKey :: "string \<Rightarrow> string option \<Rightarrow> string" where
  "specStripApiKey apiKey p =
     (case p of
        None \<Rightarrow> apiKey
      | Some q \<Rightarrow> if prefix q apiKey then drop (length q) apiKey else apiKey)"

text \<open>
  Collaborators for running the controller on concrete requests. The key \<^verbatim>\<open>cal_abc\<close>
  belongs to user 7, the OAuth client \<^verbatim>\<open>partner1\<close> has its own redirect addresses and
  has emails enabled. The host's local time is UTC.
\<close>

definition exampleClient :: oauth_client where
  "exampleClient =
     \<lparr> bookingCancelRedirectUri = Some ''https://partner.example/cancel'',
       bookingRescheduleRedirectUri = Some ''https://partner.example/reschedule'',
       bookingRedirectUri = Some ''https://partner.example/booked'',
       areEmailsEnabled = Some True \<rparr>"

definition exampleBooking :: booking_response where
  "exampleBooking =
     \<lparr> bookingUserId = Some 7, uid = Some ''abc'', startTime = Some 1700000000000,
       fromReschedule = None \<rparr>"

definition exampleEnv :: collaborators where
  "exampleEnv =
     \<lparr> config = (\<lambda>k. if k = ''api.keyPrefix'' then Some ''cal_'' else None),
       isApiKey = specIsApiKey,
       stripApiKey = specStripApiKey,
       hashAPIKey = (\<lambda>s. ''sha256:'' @ s),
       getApiKeyFromHash =
         (\<lambda>h. if h = ''sha256:abc'' then Inr (Some \<lparr> keyUserId = 7 \<rparr>) else Inr None),
       oAuthFlowGetOwnerId = (\<lambda>token. Yields None),
       getOAuthClient = (\<lambda>c. if c = ''partner1'' then Inr (Some exampleClient) else Inr None),
       handleNewBooking = (\<lambda>ctx. Inr exampleBooking),
       handleCancelBooking =
         (\<lambda>ctx. Inr \<lparr> cancelledBookingId = 12, cancelledBookingUid = ''abc'',
                      onlyRemovedAttendee = False \<rparr>),
       handleInstantMeeting =
         (\<lambda>ctx. Inr \<lparr> instantUserId = Some 9, instantBookingUid = Some ''xyz'' \<rparr>),
       increaseUsageByUserId = (\<lambda>ownerId u. None),
       increaseUsageInvalidDate = (\<lambda>ownerId bookingUid. None),
       cancelUsageByBookingUid = (\<lambda>bookingUid. None),
       now = 1700000000000,
       localTZA = (\<lambda>t isUTC. 0) \<rparr>"

definition exampleRequest :: booking_request where
  "exampleRequest =
     \<lparr> authorization = Some ''Bearer cal_abc'', forceSlug = None,
       body = \<lparr> bodyId = None, noEmail = None \<rparr>,
       reqUserId = None, platformParams = None \<rparr>"

definition exampleInput :: create_booking_input where
  "exampleInput = \<lparr> orgSlug = None, locationUrl = None \<rparr>"

text \<open>The parameters that \<^verbatim>\<open>getOAuthClientsParams\<close> computes for \<^verbatim>\<open>partner1\<close>.\<close>

definition partner1Params :: OAuthRequestParams where
  "partner1Params =
     \<lparr> platformClientId = ''partner1'',
       platformRescheduleUrl = ''https://partner.example/reschedule'',
       platformCancelUrl = ''https://partner.example/cancel'',
       platformBookingUrl = ''https://partner.example/booked'',
       platformBookingLocation = None,
       arePlatformEmailsEnabled = True \<rparr>"

text \<open>
  The same deployment with the key prefix configured as \<^verbatim>\<open>key_\<close> under
  \<^verbatim>\<open>api.keyPrefix\<close>; the key \<^verbatim>\<open>key_abc\<close> belongs to user 7.
\<close>

definition customPrefixEnv :: collaborators where
  "customPrefixEnv =
     exampleEnv\<lparr> config := (\<lambda>k. if k = ''api.keyPrefix'' then Some ''key_'' else None) \<rparr>"

definition customPrefixRequest :: booking_request where
  "customPrefixRequest = exampleRequest\<lparr> authorization := Some ''Bearer key_abc'' \<rparr>"

text \<open>
  The same deployment with a token introspection that fails the way an \<^verbatim>\<open>async\<close>
  method fails: the promise it returns is rejected.
\<close>

definition failingIntrospectionEnv :: collaborators where
  "failingIntrospectionEnv =
     exampleEnv\<lparr> oAuthFlowGetOwnerId :=
                   (\<lambda>token. Rejects (PlainError (Some ''token lookup failed''))) \<rparr>"

definition accessTokenRequest :: booking_request where
  "accessTokenRequest = exampleRequest\<lparr> authorization := Some ''Bearer token123'' \<rparr>"

text \<open>An engine whose results carry the owner id 0.\<close>

definition zeroOwnerBooking :: booking_response where
  "zeroOwnerBooking = exampleBooking\<lparr> bookingUserId := Some 0 \<rparr>"

definition zeroOwnerMeeting :: instant_meeting where
  "zeroOwnerMeeting = \<lparr> instantUserId = Some 0, instantBookingUid = Some ''xyz'' \<rparr>"

definition zeroOwnerEnv :: collaborators where
  "zeroOwnerEnv =
     exampleEnv\<lparr> handleNewBooking := (\<lambda>ctx. Inr zeroOwnerBooking),
                 handleInstantMeeting := (\<lambda>ctx. Inr zeroOwnerMeeting) \<rparr>"

text \<open>
  The request that the engine receives for \<open>exampleRequest\<close> when no client id is sent and
  the module-level object still has its initial contents; and the same for a cancellation
  of booking \<^verbatim>\<open>12\<close>.
\<close>

definition exampleContext :: booking_request where
  "exampleContext =
     \<lparr> authorization = Some ''Bearer cal_abc'', forceSlug = None,
       body = \<lparr> bodyId = None, noEmail = Some True \<rparr>,
       reqUserId = Some 7, platformParams = Some DEFAULT_PLATFORM_PARAMS \<rparr>"

definition exampleCancelContext :: booking_request where
  "exampleCancelContext =
     exampleContext\<lparr> body := \<lparr> bodyId = Some (Num 12), noEmail = Some True \<rparr> \<rparr>"

definition exampleCancelResult :: cancel_result where
  "exampleCancelResult =
     \<lparr> cancelledBookingId = 12, cancelledBookingUid = ''abc'', onlyRemovedAttendee = False \<rparr>"

text \<open>A request without an \<^verbatim>\<open>Authorization\<close> header, and what the engine receives for it.\<close>

definition anonymousRequest :: booking_request where
  "anonymousRequest = exampleRequest\<lparr> authorization := None \<rparr>"

definition anonymousContext :: booking_request where
  "anonymousContext =
     \<lparr> authorization = None, forceSlug = None,
       body = \<lparr> bodyId = None, noEmail = Some True \<rparr>,
       reqUserId = Some (- 1), platformParams = Some DEFAULT_PLATFORM_PARAMS \<rparr>"

definition exampleMeeting :: instant_meeting where
  "exampleMeeting = \<lparr> instantUserId = Some 9, instantBookingUid = Some ''xyz'' \<rparr>"

text \<open>
  What the engine receives for \<open>exampleRequest\<close> once the module-level object holds the
  parameters of \<^verbatim>\<open>partner1\<close>.
\<close>

definition partner1Context :: booking_request where
  "partner1Context =
     exampleContext\<lparr> platformParams := Some partner1Params,
                     body := \<lparr> bodyId = None, noEmail = Some False \<rparr> \<rparr>"

text \<open>
  A host in New York, five seconds before 06:00:00 UTC on 5 November 2023 (the time value
  1699164000000), when its local time went from four to five hours behind UTC. A local
  time that occurs twice is read by the offset before the change.
\<close>

definition fallBackTZA :: "int \<Rightarrow> bool \<Rightarrow> int" where
  "fallBackTZA t isUTC =
     (if isUTC then (if t < 1699164000000 then - 14400000 else - 18000000)
      else (if t < 1699149600000 then - 14400000 else - 18000000))"

definition fallBackEnv :: collaborators where
  "fallBackEnv = exampleEnv\<lparr> now := 1699163995000, localTZA := fallBackTZA \<rparr>"

section \<open>Properties\<close>

lemmas controller_defs =
  getOwnerId_def getOAuthClientsParams_def createNextApiBookingRequest_def catchClause_def
  createBooking_def cancelBooking_def createInstantBooking_def effects_def outcome_def
  truthyString_def truthyNumber_def truthyDate_def
  InternalServerErrorException_def NotFoundException_def SUCCESS_STATUS_def

lemmas parseInt_defs =
  parseInt_def isWhiteSpace_def isRadixDigit_def digitValue_def radixValue_def toNumber_def
  codeUnits_def

lemmas date_defs =
  setSeconds_def getSeconds_def LocalTime_def UTC_def Day_def HourFromTime_def
  MinFromTime_def SecFromTime_def msFromTime_def MakeTime_def MakeDate_def TimeClip_def

lemmas example_defs =
  exampleEnv_def exampleRequest_def exampleInput_def exampleClient_def exampleBooking_def
  exampleContext_def exampleCancelContext_def exampleCancelResult_def partner1Params_def
  customPrefixEnv_def customPrefixRequest_def failingIntrospectionEnv_def
  accessTokenRequest_def zeroOwnerBooking_def zeroOwnerMeeting_def zeroOwnerEnv_def
  anonymousRequest_def anonymousContext_def exampleMeeting_def partner1Context_def
  specIsApiKey_def specStripApiKey_def DEFAULT_PLATFORM_PARAMS_def
  fallBackTZA_def fallBackEnv_def

lemmas evaluation = controller_defs parseInt_defs example_defs Let_def

subsection \<open>Auxiliary facts\<close>

lemma catchClause_Exception: "\<exists>e. catchClause err type msg = Exception e"
  by (cases err) (simp_all add: catchClause_def)

text \<open>Assembling the request logs at most; it calls neither the engine nor the billing service.\<close>

lemma createNextApiBookingRequest_logs:
  "\<exists>ls. snd (snd (createNextApiBookingRequest env g req c l)) = map LoggerError ls"
  by (auto simp: createNextApiBookingRequest_def Let_def simp flip: map_append
        split: prod.splits sum.splits option.splits)

lemma no_engine_in_logs [simp]:
  "NewBookingCall c \<notin> set (map LoggerError ls)"
  "CancelBookingCall c \<notin> set (map LoggerError ls)"
  "InstantMeetingCall c \<notin> set (map LoggerError ls)"
  by auto

lemma no_billing_in_logs [simp]: "filter isBilling (map LoggerError ls) = []"
  by (induction ls) simp_all

subsection \<open>The error classifier\<close>





text \<open>
  An \<^verbatim>\<open>HttpError\<close> that lacks one of the two fields gets the default for that field alone.
\<close>

lemma handleBookingErrors_HttpError_defaults:
  "handleBookingErrors (HttpError None (Some m)) type = Inl (HttpException m 500)
   \<and> handleBookingErrors (HttpError (Some sc) None) type = Inl (HttpException (errMsg type) sc)
   \<and> handleBookingErrors (HttpError None None) type = Inl (HttpException (errMsg type) 500)"
  by simp

subsection \<open>Cancelling\<close>

text \<open>
  C7. When the path parameter \<^verbatim>\<open>bookingId\<close> is absent or empty, \<^verbatim>\<open>cancelBooking\<close>
  throws the not-found exception (status 404) and has issued no effect at all: in
  particular the engine is not called.
\<close>

theorem cancelBooking_without_id:
  assumes "bookingId = None \<or> bookingId = Some []"
  shows "cancelBooking env g req bookingId clientId =
           (Inl (Exception (HttpException ''Booking ID is required.'' 404)), g, [])"
  using assms by (auto simp: cancelBooking_def NotFoundException_def)

theorem cancelBooking_without_id_witness:
  "cancelBooking exampleEnv DEFAULT_PLATFORM_PARAMS exampleRequest (Some []) None =
     (Inl (Exception (HttpException ''Booking ID is required.'' 404)),
      DEFAULT_PLATFORM_PARAMS, [])"
  using cancelBooking_without_id
          [of "Some []" exampleEnv DEFAULT_PLATFORM_PARAMS exampleRequest None]
  by simp

text \<open>
  C5. When the cancellation call of the engine was made and returned a result, the billing
  calls of the request are: none if the result says that only an attendee was removed,
  and otherwise exactly one call of \<^verbatim>\<open>cancelUsageByBookingUid\<close>, with the booking uid of
  the result.
\<close>

theorem cancelBooking_accounting:
  assumes "CancelBookingCall ctx \<in> set (effects (cancelBooking env g req bookingId clientId))"
    and "handleCancelBooking env ctx = Inr res"
  shows "filter isBilling (effects (cancelBooking env g req bookingId clientId)) =
           (if onlyRemovedAttendee res then [] else [CancelUsage (cancelledBookingUid res)])"
proof -
  from assms(1) obtain bid where bid: "bookingId = Some bid" "bid \<noteq> []"
    by (cases bookingId) (auto simp: cancelBooking_def effects_def split: if_splits)
  define req1 where "req1 = req\<lparr> body := (body req)\<lparr> bodyId := Some (parseInt bid) \<rparr> \<rparr>"
  obtain r g' tr where cn: "createNextApiBookingRequest env g req1 clientId None = (r, g', tr)"
    by (cases "createNextApiBookingRequest env g req1 clientId None") auto
  from createNextApiBookingRequest_logs [of env g req1 clientId None] cn
  obtain ls where tr: "tr = map LoggerError ls" by auto
  show ?thesis
  proof (cases r)
    case (Inl err)
    with assms(1) bid cn tr show ?thesis
      by (auto simp: cancelBooking_def effects_def req1_def [symmetric])
  next
    case (Inr ctx')
    with assms(1) bid cn tr have "ctx' = ctx"
      by (auto simp: cancelBooking_def effects_def req1_def [symmetric]
            split: sum.splits if_splits option.splits)
    with Inr assms(2) bid cn tr show ?thesis
      by (auto simp: cancelBooking_def effects_def req1_def [symmetric] split: option.splits)
  qed
qed

theorem cancelBooking_accounting_witness:
  "CancelBookingCall exampleCancelContext
     \<in> set (effects (cancelBooking exampleEnv DEFAULT_PLATFORM_PARAMS exampleRequest
                       (Some (codeUnits ''12'')) None))
   \<and> handleCancelBooking exampleEnv exampleCancelContext = Inr exampleCancelResult
   \<and> filter isBilling (effects (cancelBooking exampleEnv DEFAULT_PLATFORM_PARAMS exampleRequest
                                  (Some (codeUnits ''12'')) None))
       = [CancelUsage ''abc'']"
proof -
  have called: "CancelBookingCall exampleCancelContext
     \<in> set (effects (cancelBooking exampleEnv DEFAULT_PLATFORM_PARAMS exampleRequest
                       (Some (codeUnits ''12'')) None))"
    by (simp add: controller_defs parseInt_defs example_defs)
  have returned: "handleCancelBooking exampleEnv exampleCancelContext = Inr exampleCancelResult"
    by (simp add: example_defs)
  from cancelBooking_accounting [OF called returned] called returned show ?thesis
    by (simp add: exampleCancelResult_def)
qed

subsection \<open>Assembling the request\<close>



text \<open>
  C9. In every request that \<^verbatim>\<open>createNextApiBookingRequest\<close> assembles, \<^verbatim>\<open>noEmail\<close> of
  the body is the negation of \<^verbatim>\<open>arePlatformEmailsEnabled\<close> of the parameters resolved
  for this request (those of \<^verbatim>\<open>getOAuthClientsParams\<close> for a non-empty client id, the
  module-level object otherwise), which are the parameters written to the request.
\<close>

theorem createNextApiBookingRequest_noEmail:
  assumes "createNextApiBookingRequest env g req oAuthClientId loc = (Inr ctx, g', tr)"
  shows "\<exists>oAuthParams.
           oAuthParams = (case oAuthClientId of
                            None \<Rightarrow> g
                          | Some c \<Rightarrow> if c = [] then g else fst (getOAuthClientsParams env c g))
           \<and> platformParams ctx = Some (oAuthParams\<lparr> platformBookingLocation := loc \<rparr>)
           \<and> noEmail (body ctx) = Some (\<not> arePlatformEmailsEnabled oAuthParams)"
  using assms
  by (auto simp: createNextApiBookingRequest_def Let_def
        split: prod.splits sum.splits option.splits if_splits)

theorem createNextApiBookingRequest_noEmail_witness:
  "createNextApiBookingRequest exampleEnv DEFAULT_PLATFORM_PARAMS exampleRequest
     (Some ''partner1'') None
     = (Inr partner1Context, partner1Params, [])
   \<and> platformParams partner1Context = Some partner1Params
   \<and> arePlatformEmailsEnabled partner1Params
   \<and> noEmail (body partner1Context) = Some False"
proof -
  have assembled: "createNextApiBookingRequest exampleEnv DEFAULT_PLATFORM_PARAMS exampleRequest
     (Some ''partner1'') None
     = (Inr partner1Context, partner1Params, [])"
    by (simp add: evaluation)
  from createNextApiBookingRequest_noEmail [OF assembled] assembled show ?thesis
    by (simp add: evaluation)
qed

subsection \<open>Creating a booking\<close>

text \<open>
  C4, as the code has it. When the create call of the engine was made and returned a
  booking, the billing calls of the request are: exactly one call of
  \<^verbatim>\<open>increaseUsageByUserId\<close>, with the user id, the uid, the start time and
  \<^verbatim>\<open>fromReschedule\<close> of the booking, if the user id, the uid and the start time are all
  present and truthy, that is the user id is not 0 and the uid is not empty; none if one
  of the three is missing, 0 or empty.
\<close>

theorem createBooking_usage:
  assumes "NewBookingCall ctx \<in> set (effects (createBooking env g req input clientId))"
    and "handleNewBooking env ctx = Inr booking"
  shows "filter isBilling (effects (createBooking env g req input clientId)) =
           (case (bookingUserId booking, uid booking, startTime booking) of
              (Some ownerId, Some bookingUid, Some start) \<Rightarrow>
                if ownerId \<noteq> 0 \<and> bookingUid \<noteq> []
                then [IncreaseUsage ownerId
                        \<lparr> usageUid = bookingUid, usageStartTime = start,
                          usageFromReschedule = fromReschedule booking \<rparr>]
                else []
            | _ \<Rightarrow> [])"
proof -
  define req1 where "req1 = req\<lparr> forceSlug := orgSlug input \<rparr>"
  obtain r g' tr where cn:
    "createNextApiBookingRequest env g req1 clientId (locationUrl input) = (r, g', tr)"
    by (cases "createNextApiBookingRequest env g req1 clientId (locationUrl input)") auto
  from createNextApiBookingRequest_logs [of env g req1 clientId "locationUrl input"] cn
  obtain ls where tr: "tr = map LoggerError ls" by auto
  show ?thesis
  proof (cases r)
    case (Inl err)
    with assms(1) cn tr show ?thesis
      by (auto simp: createBooking_def effects_def req1_def [symmetric])
  next
    case (Inr ctx')
    with assms(1) cn tr have "ctx' = ctx"
      by (auto simp: createBooking_def effects_def req1_def [symmetric] Let_def
            split: sum.splits if_splits option.splits prod.splits)
    with Inr assms(2) cn tr show ?thesis
      by (auto simp: createBooking_def effects_def req1_def [symmetric] Let_def
            truthyNumber_def truthyString_def truthyDate_def
            split: option.splits)
  qed
qed

theorem createBooking_usage_witness:
  "NewBookingCall exampleContext
     \<in> set (effects (createBooking exampleEnv DEFAULT_PLATFORM_PARAMS exampleRequest
                       exampleInput None))
   \<and> handleNewBooking exampleEnv exampleContext = Inr exampleBooking
   \<and> filter isBilling (effects (createBooking exampleEnv DEFAULT_PLATFORM_PARAMS exampleRequest
                                  exampleInput None))
       = [IncreaseUsage 7 \<lparr> usageUid = ''abc'', usageStartTime = 1700000000000,
                             usageFromReschedule = None \<rparr>]"
proof -
  have called: "NewBookingCall exampleContext
     \<in> set (effects (createBooking exampleEnv DEFAULT_PLATFORM_PARAMS exampleRequest
                       exampleInput None))"
    by (simp add: evaluation)
  have returned: "handleNewBooking exampleEnv exampleContext = Inr exampleBooking"
    by (simp add: exampleEnv_def)
  from createBooking_usage [OF called returned] called returned show ?thesis
    by (simp add: exampleBooking_def)
qed

text \<open>
  C4 as it is stated fails for a booking whose user id is present and is 0: the engine
  returns it with user id, uid and start time all present, the request succeeds, and no
  billing call is made.
\<close>

theorem createBooking_zero_owner_counterexample:
  "outcome (createBooking zeroOwnerEnv DEFAULT_PLATFORM_PARAMS exampleRequest exampleInput None)
     = Inr \<lparr> status = ''success'', data = zeroOwnerBooking \<rparr>
   \<and> bookingUserId zeroOwnerBooking = Some 0
   \<and> uid zeroOwnerBooking = Some ''abc''
   \<and> startTime zeroOwnerBooking = Some 1700000000000
   \<and> filter isBilling (effects (createBooking zeroOwnerEnv DEFAULT_PLATFORM_PARAMS
                                  exampleRequest exampleInput None)) = []"
  by (simp add: evaluation)

subsection \<open>Creating an instant meeting\<close>








subsection \<open>The booking id of a cancellation\<close>




lemma parseInt_examples:
  "parseInt (codeUnits ''abc'') = NaN"
  "parseInt (codeUnits ''-abc'') = NaN"
  "parseInt (codeUnits '' abc'') = NaN"
  "parseInt (codeUnits ''+'') = NaN"
  "parseInt (codeUnits ''0xg'') = NaN"
  "parseInt (codeUnits ''12abc'') = Num 12"
  "parseInt (codeUnits ''0x1F'') = Num 31"
  "parseInt (codeUnits '' -7.5'') = Num (- 7)"
  "parseInt (160 # codeUnits ''12'') = Num 12"
  "parseInt (codeUnits ''-0'') = NegZero"
  "parseInt (codeUnits ''9007199254740993'') = Rounded 9007199254740993"
  by (simp_all add: parseInt_defs)




subsection \<open>The owner of the credential\<close>

text \<open>
  When the two configuration entries that \<^verbatim>\<open>getOwnerId\<close> reads give the same prefix
  \<open>p\<close>, a bearer credential \<open>p @ secret\<close> is resolved through the stored key: the prefix is
  stripped, the secret is hashed, and the owner is the user of the key found under that
  hash; none if no key is found or the lookup fails, which is then logged.
\<close>

lemma getOwnerId_api_key:
  assumes "authorization req = Some (''Bearer '' @ p @ secret)" and "p @ secret \<noteq> []"
    and "(case config env ''api.apiKeyPrefix'' of None \<Rightarrow> ''cal_'' | Some q \<Rightarrow> q) = p"
    and "config env ''api.keyPrefix'' = Some p"
    and "isApiKey env (p @ secret) p" and "stripApiKey env (p @ secret) (Some p) = secret"
  shows "getOwnerId env req =
           (case getApiKeyFromHash env (hashAPIKey env secret) of
              Inl err \<Rightarrow> (Inr None, [err])
            | Inr keyData \<Rightarrow> (Inr (map_option keyUserId keyData), []))"
  using assms
  by (simp add: getOwnerId_def del: append_is_Nil_conv)

lemma getOwnerId_api_key_example:
  "getOwnerId exampleEnv exampleRequest = (Inr (Some 7), [])"
  by (simp add: evaluation)

text \<open>
  C2 at a deployment whose key prefix is \<^verbatim>\<open>key_\<close>, configured under
  \<^verbatim>\<open>api.keyPrefix\<close>. \<^verbatim>\<open>getOwnerId\<close> takes the prefix that decides whether the credential
  is an API key from another entry, \<^verbatim>\<open>api.apiKeyPrefix\<close>, which is not set, and so
  tests for \<^verbatim>\<open>cal_\<close>. The credential \<^verbatim>\<open>key_abc\<close>, whose key is stored for user 7, is
  taken for an access token; the stored key is not looked up and no owner is resolved.
\<close>

theorem getOwnerId_custom_prefix:
  "config customPrefixEnv ''api.keyPrefix'' = Some ''key_''
   \<and> authorization customPrefixRequest = Some (''Bearer '' @ ''key_'' @ ''abc'')
   \<and> isApiKey customPrefixEnv (''key_'' @ ''abc'') ''key_''
   \<and> stripApiKey customPrefixEnv (''key_'' @ ''abc'') (Some ''key_'') = ''abc''
   \<and> getApiKeyFromHash customPrefixEnv (hashAPIKey customPrefixEnv ''abc'')
       = Inr (Some \<lparr> keyUserId = 7 \<rparr>)
   \<and> getOwnerId customPrefixEnv customPrefixRequest = (Inr None, [])"
  by (simp add: evaluation)

text \<open>
  Whatever \<^verbatim>\<open>getOwnerId\<close> rejects with is a rejection of the promise of
  \<^verbatim>\<open>oAuthFlowService.getOwnerId\<close>: every other failure is caught.
\<close>

lemma getOwnerId_rejection_origin:
  "(case fst (getOwnerId env req) of
      Inr owner \<Rightarrow> True
    | Inl err \<Rightarrow> \<exists>token. oAuthFlowGetOwnerId env token = Rejects err)"
  by (auto simp: getOwnerId_def Let_def split: option.splits sum.splits owner_call.splits)

text \<open>
  C8 at an access token whose introspection fails asynchronously. The promise of
  \<^verbatim>\<open>oAuthFlowService.getOwnerId\<close> is returned from the \<^verbatim>\<open>try\<close> block without
  \<^verbatim>\<open>await\<close>, so its rejection is not caught: \<^verbatim>\<open>getOwnerId\<close> rejects with it and logs
  nothing, and \<^verbatim>\<open>createInstantBooking\<close>, which awaits \<^verbatim>\<open>getOwnerId\<close> before its
  \<^verbatim>\<open>try\<close> statement, throws it on as it is, without calling the engine.
\<close>

theorem getOwnerId_rejects:
  "getOwnerId failingIntrospectionEnv accessTokenRequest
     = (Inl (PlainError (Some ''token lookup failed'')), [])
   \<and> createInstantBooking failingIntrospectionEnv DEFAULT_PLATFORM_PARAMS accessTokenRequest None
     = (Inl (Uncaught (PlainError (Some ''token lookup failed''))), DEFAULT_PLATFORM_PARAMS, [])"
  by (simp add: evaluation)

subsection \<open>The parameters of the OAuth client\<close>

text \<open>
  The object that \<^verbatim>\<open>getOAuthClientsParams\<close> returns is the module-level object. As long
  as that still has its initial contents, a client that is not found, or whose lookup
  fails, gets the default parameters.
\<close>

lemma getOAuthClientsParams_returns_object:
  "fst (getOAuthClientsParams env clientId g) = fst (snd (getOAuthClientsParams env clientId g))"
  by (simp add: getOAuthClientsParams_def Let_def split: sum.splits option.splits)

lemma getOAuthClientsParams_initially_default:
  "getOAuthClient env clientId = Inr None \<or> getOAuthClient env clientId = Inl err \<Longrightarrow>
   fst (getOAuthClientsParams env clientId DEFAULT_PLATFORM_PARAMS) = DEFAULT_PLATFORM_PARAMS"
  by (auto simp: getOAuthClientsParams_def)

text \<open>
  C1 at two requests in a row. The first carries the client id \<^verbatim>\<open>partner1\<close>, which is
  found: its parameters are written into the module-level object, which holds them
  afterwards. The second carries no client id: the engine receives the parameters of
  \<^verbatim>\<open>partner1\<close>, with emails enabled and \<^verbatim>\<open>noEmail\<close> false, not the default ones. A
  client id that is not found gets the parameters of \<^verbatim>\<open>partner1\<close> in the same way.
\<close>

theorem default_params_overwritten:
  "fst (snd (createBooking exampleEnv DEFAULT_PLATFORM_PARAMS exampleRequest exampleInput
               (Some ''partner1''))) = partner1Params
   \<and> effects (createBooking exampleEnv partner1Params exampleRequest exampleInput None)
       = [NewBookingCall partner1Context,
          IncreaseUsage 7 \<lparr> usageUid = ''abc'', usageStartTime = 1700000000000,
                           usageFromReschedule = None \<rparr>]
   \<and> platformParams partner1Context = Some partner1Params
   \<and> getOAuthClient exampleEnv ''partner2'' = Inr None
   \<and> fst (getOAuthClientsParams exampleEnv ''partner2'' partner1Params) = partner1Params
   \<and> partner1Params \<noteq> DEFAULT_PLATFORM_PARAMS"
  by (simp add: evaluation)

end
